theory Spec2Isabelle
  imports Main
begin

section \<open>JavaScript strings and the built-ins the extension calls\<close>

text \<open>
  A JavaScript string is a sequence of UTF-16 code units. The model uses \<open>string\<close>, whose
  characters stand for the code units U+0000 to U+00FF (ASCII and Latin-1). This range is
  closed under \<open>toLowerCase\<close>, contains no surrogate (so \<open>encodeURIComponent\<close> never throws
  on it), and holds every character the URL pattern, the placeholder and the command names.
\<close>

definition codeUnit :: "char \<Rightarrow> nat" where
  "codeUnit c = of_char c"

text \<open>\<open>Array.prototype.join(sep)\<close> on an array of strings.\<close>

fun join :: "string \<Rightarrow> string list \<Rightarrow> string" where
  "join sep [] = []"
| "join sep [x] = x"
| "join sep (x # y # ys) = x @ sep @ join sep (y # ys)"

text \<open>
  \<open>String.prototype.toLowerCase\<close>: the upper-case letters below U+0100 are A to Z,
  U+00C0 to U+00D6 and U+00D8 to U+00DE; each maps to the code unit 32 above it.
\<close>

definition lowerUnit :: "char \<Rightarrow> char" where
  "lowerUnit c =
     (if (65 \<le> codeUnit c \<and> codeUnit c \<le> 90)
         \<or> (192 \<le> codeUnit c \<and> codeUnit c \<le> 222 \<and> codeUnit c \<noteq> 215)
      then char_of (codeUnit c + 32) else c)"

definition toLowerCase :: "string \<Rightarrow> string" where
  "toLowerCase s = map lowerUnit s"

text \<open>\<open>String.prototype.startsWith\<close>.\<close>

definition startsWith :: "string \<Rightarrow> string \<Rightarrow> bool" where
  "startsWith s p = (take (length p) s = p)"

subsection \<open>encodeURIComponent\<close>

text \<open>
  The unescaped set of \<open>encodeURIComponent\<close> is the letters, the digits and the marks
  \<open>- _ . ! ~ * ' ( )\<close>. Every other code unit is written as the percent-escapes of its UTF-8
  bytes, with upper-case hexadecimal digits: one byte below U+0080, two bytes from U+0080
  to U+00FF.
\<close>

definition uriUnreserved :: "char \<Rightarrow> bool" where
  "uriUnreserved c =
     (c \<in> set ''ABCDEFGHIJKLMNOPQRSTUVWXYZabcdefghijklmnopqrstuvwxyz0123456789-_.!~*()''
      \<or> c = CHR 0x27)"

definition hexDigit :: "nat \<Rightarrow> char" where
  "hexDigit n = ''0123456789ABCDEF'' ! (n mod 16)"

definition percentByte :: "nat \<Rightarrow> string" where
  "percentByte b = [CHR ''%'', hexDigit (b div 16), hexDigit (b mod 16)]"

definition encodeUnit :: "char \<Rightarrow> string" where
  "encodeUnit c =
     (if uriUnreserved c then [c]
      else if codeUnit c < 128 then percentByte (codeUnit c)
      else percentByte (192 + codeUnit c div 64) @ percentByte (128 + codeUnit c mod 64))"

definition encodeURIComponent :: "string \<Rightarrow> string" where
  "encodeURIComponent s = concat (map encodeUnit s)"

subsection \<open>String.prototype.replace with a string pattern\<close>

text \<open>
  \<open>s.replace(pattern, replacement)\<close> with two strings replaces the first occurrence of the
  pattern only, and expands the dollar patterns of the replacement: \<open>$$\<close> is a dollar sign,
  \<open>$&\<close> the matched text, \<open>$`\<close> the text before the match and \<open>$'\<close> the text after it. With a
  string pattern there is no capture group, so a dollar sign before anything else stands
  for itself.
\<close>

fun stringIndexOf :: "string \<Rightarrow> string \<Rightarrow> nat option" where
  "stringIndexOf [] pat = (if pat = [] then Some 0 else None)"
| "stringIndexOf (c # cs) pat =
     (if take (length pat) (c # cs) = pat then Some 0
      else map_option Suc (stringIndexOf cs pat))"

fun getSubstitution :: "string \<Rightarrow> string \<Rightarrow> string \<Rightarrow> string \<Rightarrow> string" where
  "getSubstitution matched pre post [] = []"
| "getSubstitution matched pre post [c] = [c]"
| "getSubstitution matched pre post (c # d # ds) =
     (if c = CHR ''$'' \<and> d = CHR ''$'' then CHR ''$'' # getSubstitution matched pre post ds
      else if c = CHR ''$'' \<and> d = CHR ''&'' then matched @ getSubstitution matched pre post ds
      else if c = CHR ''$'' \<and> d = CHR 0x60 then pre @ getSubstitution matched pre post ds
      else if c = CHR ''$'' \<and> d = CHR 0x27 then post @ getSubstitution matched pre post ds
      else c # getSubstitution matched pre post (d # ds))"

definition replace :: "string \<Rightarrow> string \<Rightarrow> string \<Rightarrow> string" where
  "replace s pat rep =
     (case stringIndexOf s pat of
        None \<Rightarrow> s
      | Some i \<Rightarrow>
          take i s
          @ getSubstitution pat (take i s) (drop (i + length pat) s) rep
          @ drop (i + length pat) s)"

section \<open>Regular expressions as the extension uses them\<close>

text \<open>
  The pattern of the extension is built from literal text, character classes, the greedy
  quantifiers \<open>?\<close>, \<open>*\<close> and \<open>{m,n}\<close>, and the assertion \<open>\b\<close>. Its quantified atoms
  are character classes, and its groups are only ever optional.
\<close>

datatype classItem = Single char | Range char char

fun inItem :: "char \<Rightarrow> classItem \<Rightarrow> bool" where
  "inItem c (Single d) = (c = d)"
| "inItem c (Range lo hi) = (codeUnit lo \<le> codeUnit c \<and> codeUnit c \<le> codeUnit hi)"

definition inClass :: "classItem list \<Rightarrow> char \<Rightarrow> bool" where
  "inClass cl c = list_ex (inItem c) cl"

datatype regex =
    Lit string
  | Cat regex regex
  | Opt regex
  | Rep nat "nat option" "classItem list"
  | WordBoundary

text \<open>The word characters of \<open>\b\<close> are the letters, the digits and the underscore.\<close>

definition isWordChar :: "string \<Rightarrow> nat \<Rightarrow> bool" where
  "isWordChar s i =
     (i < length s
      \<and> inClass [Range CHR ''a'' CHR ''z'', Range CHR ''A'' CHR ''Z'',
                  Range CHR ''0'' CHR ''9'', Single CHR ''_''] (s ! i))"

definition isWordBoundary :: "string \<Rightarrow> nat \<Rightarrow> bool" where
  "isWordBoundary s e = ((0 < e \<and> isWordChar s (e - 1)) \<noteq> isWordChar s e)"

text \<open>
  \<open>ends r s i\<close> lists the end indices of the matches of \<open>r\<close> in \<open>s\<close> that start at index
  \<open>i\<close>, in the order in which the backtracking matcher of the language tries them: a greedy
  quantifier takes as many repetitions as it can and gives them back one at a time, an
  optional group is tried before it is skipped (and an iteration that consumes nothing is
  rejected), and a sequence tries every end of its left part in order, each with every end
  of its right part. The match the engine reports is the head of the list.
\<close>

fun ends :: "regex \<Rightarrow> string \<Rightarrow> nat \<Rightarrow> nat list" where
  "ends (Lit w) s i = (if take (length w) (drop i s) = w then [i + length w] else [])"
| "ends (Cat a b) s i = concat (map (ends b s) (ends a s i))"
| "ends (Opt a) s i = filter (\<lambda>e. e \<noteq> i) (ends a s i) @ [i]"
| "ends (Rep lo hi cl) s i =
     (let n = length (takeWhile (inClass cl) (drop i s));
          m = (case hi of None \<Rightarrow> n | Some h \<Rightarrow> min h n)
      in if m < lo then [] else map (\<lambda>k. i + k) (rev [lo..<Suc m]))"
| "ends WordBoundary s i = (if isWordBoundary s i then [i] else [])"

text \<open>
  The search of \<open>RegExp.prototype.exec\<close> for a pattern without the \<open>g\<close> and \<open>y\<close> flags:
  the start index runs from 0 up to the length of the string, and the first start index at
  which the pattern matches gives the result, as the pair of the start and the end index.
\<close>

function regExpBuiltinExec :: "regex \<Rightarrow> string \<Rightarrow> nat \<Rightarrow> (nat \<times> nat) option" where
  "regExpBuiltinExec r s lastIndex =
     (if length s < lastIndex then None
      else (case ends r s lastIndex of
              [] \<Rightarrow> regExpBuiltinExec r s (Suc lastIndex)
            | e # _ \<Rightarrow> Some (lastIndex, e)))"
  by pat_completeness auto
termination
  by (relation "measure (\<lambda>(r, s, lastIndex). Suc (length s) - lastIndex)") auto

declare regExpBuiltinExec.simps [simp del]

text \<open>\<open>r.test(s)\<close>, and the matched text \<open>s.match(r)[0]\<close> (\<open>None\<close> when \<open>match\<close> returns null).\<close>

definition test :: "regex \<Rightarrow> string \<Rightarrow> bool" where
  "test r s = (regExpBuiltinExec r s 0 \<noteq> None)"

definition match0 :: "string \<Rightarrow> regex \<Rightarrow> string option" where
  "match0 s r = map_option (\<lambda>(i, e). take (e - i) (drop i s)) (regExpBuiltinExec r s 0)"

subsection \<open>The URL pattern\<close>

text \<open>
  \<^verbatim>\<open>/(https?:\/\/)?(www\.)?[-a-zA-Z0-9@:%._\+~#=]{1,256}\.[a-zA-Z0-9()]{1,6}\b([-a-zA-Z0-9()@:%_\+.~#?&\/\/=]*)/\<close>
  is the pattern of \<open>activateResult\<close> and of \<open>getInitialResultSet\<close>, in both files.
\<close>

definition hostClass :: "classItem list" where
  "hostClass =
     [Single CHR ''-'', Range CHR ''a'' CHR ''z'', Range CHR ''A'' CHR ''Z'',
      Range CHR ''0'' CHR ''9'', Single CHR ''@'', Single CHR '':'', Single CHR ''%'',
      Single CHR ''.'', Single CHR ''_'', Single CHR ''+'', Single CHR ''~'',
      Single CHR ''#'', Single CHR ''='']"

definition tldClass :: "classItem list" where
  "tldClass =
     [Range CHR ''a'' CHR ''z'', Range CHR ''A'' CHR ''Z'', Range CHR ''0'' CHR ''9'',
      Single CHR ''('', Single CHR '')'']"

definition pathClass :: "classItem list" where
  "pathClass =
     [Single CHR ''-'', Range CHR ''a'' CHR ''z'', Range CHR ''A'' CHR ''Z'',
      Range CHR ''0'' CHR ''9'', Single CHR ''('', Single CHR '')'', Single CHR ''@'',
      Single CHR '':'', Single CHR ''%'', Single CHR ''_'', Single CHR ''+'',
      Single CHR ''.'', Single CHR ''~'', Single CHR ''#'', Single CHR ''?'',
      Single CHR ''&'', Single CHR ''/'', Single CHR ''/'', Single CHR ''='']"

definition urlRegex :: regex where
  "urlRegex =
     Cat (Opt (Cat (Lit ''http'') (Cat (Opt (Lit ''s'')) (Lit ''://''))))
    (Cat (Opt (Lit ''www.''))
    (Cat (Rep 1 (Some 256) hostClass)
    (Cat (Lit ''.'')
    (Cat (Rep 1 (Some 6) tldClass)
    (Cat WordBoundary
         (Rep 0 None pathClass))))))"

text \<open>
  The condition both methods compute: the pattern is found, and the matched text is as long
  as the whole input.
\<close>

definition isDirectUrl :: "string \<Rightarrow> bool" where
  "isDirectUrl fullInputString =
     (test urlRegex fullInputString
      \<and> (case match0 fullInputString urlRegex of
            None \<Rightarrow> False
          | Some m \<Rightarrow> length m = length fullInputString))"

section \<open>The configuration and the search provider of src/extension.js\<close>

text \<open>
  An entry of \<open>search_engines.json\<close>, as both files read it: \<open>prefix\<close> and \<open>url\<close> are
  strings, \<open>empty_query_url\<close> is optional. The configuration is a list of entries.
\<close>

record engine =
  prefix :: string
  url :: string
  empty_query_url :: "string option"

datatype error = TypeError

datatype 'a promise = Resolved 'a | Rejected error

definition googleTemplate :: string where
  "googleTemplate = ''https://www.google.com/search?q={query}''"

text \<open>
  The fields of the provider that its methods read or assign: \<open>_lastParsedTerms\<close> and
  \<open>_searchEnginesMap\<close>, here a map from the prefix to the URL template.
\<close>

record provider =
  lastParsedTerms :: "string list"
  searchEnginesMap :: "string \<rightharpoonup> string"

text \<open>
  The constructor: every entry is stored under its prefix, a later entry replacing an
  earlier one with the same prefix, and the entry \<open>_default_\<close> is added when no entry of
  the configuration has that prefix.
\<close>

definition PrefixWebSearchProvider :: "engine list \<Rightarrow> provider" where
  "PrefixWebSearchProvider searchEnginesConfig =
     (let m = foldl (\<lambda>m e. m(prefix e \<mapsto> url e)) Map.empty searchEnginesConfig
      in \<lparr>lastParsedTerms = [],
          searchEnginesMap =
            (if m ''_default_'' = None then m(''_default_'' \<mapsto> googleTemplate) else m)\<rparr>)"

text \<open>
  \<open>terms[0]?.toLowerCase()\<close> is undefined (\<open>None\<close>) for the empty list, and \<open>Map.has\<close> of
  undefined is false, no prefix being undefined.
\<close>

definition firstTerm :: "string list \<Rightarrow> string option" where
  "firstTerm terms = (case terms of [] \<Rightarrow> None | t # _ \<Rightarrow> Some (toLowerCase t))"

definition has :: "(string \<rightharpoonup> 'v) \<Rightarrow> string option \<Rightarrow> bool" where
  "has m k = (case k of None \<Rightarrow> False | Some key \<Rightarrow> m key \<noteq> None)"

definition fullInputString :: "string list \<Rightarrow> string" where
  "fullInputString termsToUse = join '' '' termsToUse"

definition searchQueryParam :: "string list \<Rightarrow> string" where
  "searchQueryParam actualSearchTerms = join ''+'' (map encodeURIComponent actualSearchTerms)"

text \<open>
  The first half of \<open>activateResult\<close>, which computes \<open>targetUrl\<close>. \<open>Map.get\<close> of an absent
  key is undefined, and \<open>replace\<close> on undefined throws a TypeError.
\<close>

definition targetUrl :: "provider \<Rightarrow> string list \<Rightarrow> error + string" where
  "targetUrl p termsToUse =
     (if isDirectUrl (fullInputString termsToUse) then Inr (fullInputString termsToUse)
      else
        (let (urlTemplate, actualSearchTerms) =
               (if has (searchEnginesMap p) (firstTerm termsToUse) \<and> 1 < length termsToUse
                then (searchEnginesMap p (the (firstTerm termsToUse)), tl termsToUse)
                else (searchEnginesMap p ''_default_'', termsToUse))
         in case urlTemplate of
              None \<Rightarrow> Inl TypeError
            | Some t \<Rightarrow> Inr (replace t ''{query}'' (searchQueryParam actualSearchTerms))))"

text \<open>The second half, which builds the command line from \<open>isDirectUrl\<close> and \<open>targetUrl\<close>.\<close>

definition cmd :: "bool \<Rightarrow> string \<Rightarrow> string" where
  "cmd direct target =
     ''xdg-open '' @
     (if direct then
        (if startsWith target ''http://'' \<or> startsWith target ''https://'' then target
         else ''https://'' @ target)
      else [CHR 0x22] @ target @ [CHR 0x22])"

text \<open>
  \<open>activateResult\<close> assigns no field of the provider; its effect is the command line it hands
  to \<open>GLib.spawn_command_line_async\<close>, which is the result here.
\<close>

definition activateResult :: "provider \<Rightarrow> string \<Rightarrow> string list \<Rightarrow> error + string" where
  "activateResult p resultId termsToUse =
     (case targetUrl p termsToUse of
        Inl e \<Rightarrow> Inl e
      | Inr t \<Rightarrow> Inr (cmd (isDirectUrl (fullInputString termsToUse)) t))"

definition launchSearch :: "'p \<Rightarrow> string list \<Rightarrow> unit option" where
  "launchSearch p terms = None"

definition createResultObject :: "'p \<Rightarrow> 'meta \<Rightarrow> unit option" where
  "createResultObject p meta = None"

text \<open>
  \<open>getResultMetas\<close> reads the terms of the last search. The metadata are the identifier, the
  name and the description (the icon factory is the same closure in every entry).
  \<open>toUpperCase\<close> is a parameter: upper-casing leaves the range of code units of the model.
  \<open>Object.keys(...).find(key => key === k) || 'Web'\<close> is \<open>k\<close> when \<open>k\<close> is a key and not the
  empty string, and \<open>'Web'\<close> otherwise.
\<close>

record resultMeta =
  meta_id :: string
  meta_name :: string
  meta_description :: string

definition engineName :: "(string \<rightharpoonup> string) \<Rightarrow> string \<Rightarrow> string" where
  "engineName m k = (if m k \<noteq> None \<and> k \<noteq> [] then k else ''Web'')"

definition resultMetaOf ::
  "(string \<Rightarrow> string) \<Rightarrow> provider \<Rightarrow> string \<Rightarrow> resultMeta" where
  "resultMetaOf toUpperCase p ident =
     (let currentTerms = lastParsedTerms p in
      if ident = ''direct-url'' then
        \<lparr>meta_id = ident, meta_name = ''Open URL'',
         meta_description = ''Open '' @ [CHR 0x22] @ join '' '' currentTerms @ [CHR 0x22]\<rparr>
      else if ident = ''custom-search'' then
        (if has (searchEnginesMap p) (firstTerm currentTerms) \<and> 1 < length currentTerms then
           (let name = engineName (searchEnginesMap p) (the (firstTerm currentTerms)) in
            \<lparr>meta_id = ident, meta_name = ''Search '' @ toUpperCase name,
             meta_description =
               ''Search for '' @ [CHR 0x22] @ join '' '' (tl currentTerms) @ [CHR 0x22]
               @ '' on '' @ toUpperCase name\<rparr>)
         else
           (let name = engineName (searchEnginesMap p) ''_default_'' in
            \<lparr>meta_id = ident, meta_name = ''Prefix Web Search'',
             meta_description =
               ''Search for '' @ [CHR 0x22] @ join '' '' currentTerms @ [CHR 0x22]
               @ '' on '' @ toUpperCase name\<rparr>))
      else \<lparr>meta_id = ident, meta_name = [], meta_description = []\<rparr>)"

definition getResultMetas ::
  "(string \<Rightarrow> string) \<Rightarrow> provider \<Rightarrow> string list \<Rightarrow> resultMeta list promise" where
  "getResultMetas toUpperCase p resultIds = Resolved (map (resultMetaOf toUpperCase p) resultIds)"

text \<open>
  \<open>getInitialResultSet\<close> stores the terms in \<open>_lastParsedTerms\<close> and resolves with the list of
  identifiers; the result is the settled promise and the provider after the call.
\<close>

definition getInitialResultSet ::
  "provider \<Rightarrow> string list \<Rightarrow> string list promise \<times> provider" where
  "getInitialResultSet p terms =
     (let p' = p\<lparr>lastParsedTerms := terms\<rparr> in
      if length terms = 0 then (Resolved [], p')
      else if isDirectUrl (join '' '' terms) then (Resolved [''direct-url''], p')
      else if has (searchEnginesMap p') (firstTerm terms) \<and> 1 < length terms
        then (Resolved [''custom-search''], p')
      else if 0 < length terms then (Resolved [''custom-search''], p')
      else (Resolved [], p'))"

definition getSubsearchResultSet ::
  "provider \<Rightarrow> string list \<Rightarrow> string list \<Rightarrow> string list promise \<times> provider" where
  "getSubsearchResultSet p results terms = getInitialResultSet p terms"

text \<open>
  \<open>filterResults\<close>: \<open>slice(0, maxResults)\<close> counts a negative end from the end of the array.
\<close>

definition filterResults :: "'p \<Rightarrow> string list \<Rightarrow> int \<Rightarrow> string list" where
  "filterResults p results maxResults =
     (if int (length results) \<le> maxResults then results
      else if 0 \<le> maxResults then take (nat maxResults) results
      else take (nat (int (length results) + maxResults)) results)"

text \<open>
  The calls the shell can make on a provider, and the provider after a call. Only
  \<open>getInitialResultSet\<close> (and \<open>getSubsearchResultSet\<close> through it) assigns a field.
\<close>

datatype operation =
    ActivateResult string "string list"
  | LaunchSearch "string list"
  | CreateResultObject
  | GetResultMetas "string list"
  | GetInitialResultSet "string list"
  | GetSubsearchResultSet "string list" "string list"
  | FilterResults "string list" int

fun after :: "provider \<Rightarrow> operation \<Rightarrow> provider" where
  "after p (GetInitialResultSet terms) = snd (getInitialResultSet p terms)"
| "after p (GetSubsearchResultSet results terms) = snd (getSubsearchResultSet p results terms)"
| "after p (ActivateResult resultId terms) = p"
| "after p (LaunchSearch terms) = p"
| "after p CreateResultObject = p"
| "after p (GetResultMetas resultIds) = p"
| "after p (FilterResults results maxResults) = p"

section \<open>The search provider of src/unnamed/part\_000\<close>

text \<open>
  The second file is a variant of the same extension. Its names carry the suffix \<open>_p0\<close>
  where its code differs. Its map stores an object with the fields \<open>url\<close> and
  \<open>empty_query_url\<close> for each prefix, a prefix is taken also when it is the only term, and
  an entry with a non-empty \<open>empty_query_url\<close> opens that address when no term follows the
  prefix.
\<close>

record engineConfig =
  entry_url :: string
  entry_empty_query_url :: "string option"

record provider_p0 =
  lastParsedTerms_p0 :: "string list"
  searchEnginesMap_p0 :: "string \<rightharpoonup> engineConfig"

definition PrefixWebSearchProvider_p0 :: "engine list \<Rightarrow> provider_p0" where
  "PrefixWebSearchProvider_p0 searchEnginesConfig =
     (let m = foldl (\<lambda>m e. m(prefix e \<mapsto>
                  \<lparr>entry_url = url e, entry_empty_query_url = empty_query_url e\<rparr>))
                Map.empty searchEnginesConfig
      in \<lparr>lastParsedTerms_p0 = [],
          searchEnginesMap_p0 =
            (if m ''_default_'' = None
             then m(''_default_'' \<mapsto>
                    \<lparr>entry_url = googleTemplate, entry_empty_query_url = None\<rparr>)
             else m)\<rparr>)"

text \<open>
  The truth value of \<open>engineConfig.empty_query_url\<close>: undefined and the empty string are
  false, every other string is true.
\<close>

definition truthy :: "string option \<Rightarrow> bool" where
  "truthy v = (case v of None \<Rightarrow> False | Some u \<Rightarrow> u \<noteq> [])"

definition targetUrl_p0 :: "provider_p0 \<Rightarrow> string list \<Rightarrow> error + string" where
  "targetUrl_p0 p termsToUse =
     (if isDirectUrl (fullInputString termsToUse) then Inr (fullInputString termsToUse)
      else
        (let (engineConfig, actualSearchTerms) =
               (if has (searchEnginesMap_p0 p) (firstTerm termsToUse)
                then (searchEnginesMap_p0 p (the (firstTerm termsToUse)), tl termsToUse)
                else (searchEnginesMap_p0 p ''_default_'', termsToUse))
         in case engineConfig of
              None \<Rightarrow> Inl TypeError
            | Some c \<Rightarrow>
                (if length actualSearchTerms = 0 \<and> truthy (entry_empty_query_url c)
                 then Inr (the (entry_empty_query_url c))
                 else Inr (replace (entry_url c) ''{query}''
                             (searchQueryParam actualSearchTerms)))))"

definition activateResult_p0 :: "provider_p0 \<Rightarrow> string \<Rightarrow> string list \<Rightarrow> error + string" where
  "activateResult_p0 p resultId termsToUse =
     (case targetUrl_p0 p termsToUse of
        Inl e \<Rightarrow> Inl e
      | Inr t \<Rightarrow> Inr (cmd (isDirectUrl (fullInputString termsToUse)) t))"

definition resultMetaOf_p0 :: "string \<Rightarrow> resultMeta" where
  "resultMetaOf_p0 ident =
     (if ident = ''direct-url'' then
        \<lparr>meta_id = ident, meta_name = ''Open URL'', meta_description = []\<rparr>
      else if ident = ''custom-search'' then
        \<lparr>meta_id = ident, meta_name = ''Prefix Web Search'', meta_description = []\<rparr>
      else \<lparr>meta_id = ident, meta_name = [], meta_description = []\<rparr>)"

definition getResultMetas_p0 :: "provider_p0 \<Rightarrow> string list \<Rightarrow> resultMeta list promise" where
  "getResultMetas_p0 p resultIds = Resolved (map resultMetaOf_p0 resultIds)"

definition getInitialResultSet_p0 ::
  "provider_p0 \<Rightarrow> string list \<Rightarrow> string list promise \<times> provider_p0" where
  "getInitialResultSet_p0 p terms =
     (let p' = p\<lparr>lastParsedTerms_p0 := terms\<rparr> in
      if length terms = 0 then (Resolved [], p')
      else if isDirectUrl (join '' '' terms) then (Resolved [''direct-url''], p')
      else if has (searchEnginesMap_p0 p') (firstTerm terms)
        then (Resolved [''custom-search''], p')
      else if 0 < length terms then (Resolved [''custom-search''], p')
      else (Resolved [], p'))"

definition getSubsearchResultSet_p0 ::
  "provider_p0 \<Rightarrow> string list \<Rightarrow> string list \<Rightarrow> string list promise \<times> provider_p0" where
  "getSubsearchResultSet_p0 p results terms = getInitialResultSet_p0 p terms"

fun after_p0 :: "provider_p0 \<Rightarrow> operation \<Rightarrow> provider_p0" where
  "after_p0 p (GetInitialResultSet terms) = snd (getInitialResultSet_p0 p terms)"
| "after_p0 p (GetSubsearchResultSet results terms) =
     snd (getSubsearchResultSet_p0 p results terms)"
| "after_p0 p (ActivateResult resultId terms) = p"
| "after_p0 p (LaunchSearch terms) = p"
| "after_p0 p CreateResultObject = p"
| "after_p0 p (GetResultMetas resultIds) = p"
| "after_p0 p (FilterResults results maxResults) = p"

section \<open>The extension: loading the configuration, enable and disable\<close>

text \<open>
  The value \<open>JSON.parse\<close> returns for the text of \<open>search_engines.json\<close>, as far as the
  extension tells values apart: null; an array, whose elements are entry objects or null
  (\<open>None\<close>); any other value, that is an object, a number, a string or a boolean. An array
  with an element of another kind is outside the model, as is an entry whose prefix or url
  is not a string.
\<close>

datatype configValue =
    JsonNull
  | JsonArray "engine option list"
  | JsonOther

text \<open>
  What \<open>new PrefixWebSearchProvider(this, searchEnginesConfig)\<close> does with such a value.
  \<open>searchEnginesConfig.forEach\<close> throws a TypeError on null and on a value that has no
  \<open>forEach\<close>, and \<open>engine.prefix\<close> throws a TypeError on a null element. On an array of
  entries the constructors are the ones above.
\<close>

definition newPrefixWebSearchProvider :: "configValue \<Rightarrow> error + provider" where
  "newPrefixWebSearchProvider searchEnginesConfig =
     (case searchEnginesConfig of
        JsonNull \<Rightarrow> Inl TypeError
      | JsonOther \<Rightarrow> Inl TypeError
      | JsonArray engines \<Rightarrow>
          (case those engines of
             None \<Rightarrow> Inl TypeError
           | Some config \<Rightarrow> Inr (PrefixWebSearchProvider config)))"

definition newPrefixWebSearchProvider_p0 :: "configValue \<Rightarrow> error + provider_p0" where
  "newPrefixWebSearchProvider_p0 searchEnginesConfig =
     (case searchEnginesConfig of
        JsonNull \<Rightarrow> Inl TypeError
      | JsonOther \<Rightarrow> Inl TypeError
      | JsonArray engines \<Rightarrow>
          (case those engines of
             None \<Rightarrow> Inl TypeError
           | Some config \<Rightarrow> Inr (PrefixWebSearchProvider_p0 config)))"

text \<open>
  The fields \<open>_provider\<close> and \<open>_searchEnginesConfig\<close> of the extension. Both are null
  (\<open>None\<close> and \<open>JsonNull\<close>) until it is enabled. The type of the provider is that of the
  file.
\<close>

record 'p extension =
  ext_provider :: "'p option"
  ext_searchEnginesConfig :: configValue

definition fallbackConfig :: "engine list" where
  "fallbackConfig =
     [\<lparr>prefix = ''gg'', url = ''https://www.google.com/search?q={query}'',
       empty_query_url = None\<rparr>,
      \<lparr>prefix = ''_default_'', url = ''https://www.google.com/search?q={query}'',
       empty_query_url = None\<rparr>]"

text \<open>
  \<open>_loadSearchEnginesConfig\<close>. What the \<open>try\<close> block meets is an input: \<open>Threw\<close> when
  reading the file, decoding it or \<open>JSON.parse\<close> throws, and \<open>Parsed v\<close> when
  \<open>JSON.parse\<close> returns \<open>v\<close>. The handler stores the fallback; a parsed value is stored as
  it is, whatever its shape.
\<close>

datatype loaded = Threw | Parsed configValue

definition loadSearchEnginesConfig :: "loaded \<Rightarrow> 'p extension \<Rightarrow> 'p extension" where
  "loadSearchEnginesConfig file ext =
     (case file of
        Threw \<Rightarrow> ext\<lparr>ext_searchEnginesConfig := JsonArray (map Some fallbackConfig)\<rparr>
      | Parsed v \<Rightarrow> ext\<lparr>ext_searchEnginesConfig := v\<rparr>)"

text \<open>
  \<open>enable\<close> loads the configuration when it is null and creates the provider when there
  is none. Nothing in it catches an exception of the constructor: the result is the
  exception that leaves \<open>enable\<close>, if any, and the extension as the call leaves it.
\<close>

definition enable :: "loaded \<Rightarrow> provider extension \<Rightarrow> error option \<times> provider extension" where
  "enable file ext =
     (let ext1 = (if ext_searchEnginesConfig ext = JsonNull
                  then loadSearchEnginesConfig file ext else ext)
      in if ext_provider ext1 = None then
           (case newPrefixWebSearchProvider (ext_searchEnginesConfig ext1) of
              Inl e \<Rightarrow> (Some e, ext1)
            | Inr p \<Rightarrow> (None, ext1\<lparr>ext_provider := Some p\<rparr>))
         else (None, ext1))"

definition enable_p0 ::
  "loaded \<Rightarrow> provider_p0 extension \<Rightarrow> error option \<times> provider_p0 extension" where
  "enable_p0 file ext =
     (let ext1 = (if ext_searchEnginesConfig ext = JsonNull
                  then loadSearchEnginesConfig file ext else ext)
      in if ext_provider ext1 = None then
           (case newPrefixWebSearchProvider_p0 (ext_searchEnginesConfig ext1) of
              Inl e \<Rightarrow> (Some e, ext1)
            | Inr p \<Rightarrow> (None, ext1\<lparr>ext_provider := Some p\<rparr>))
         else (None, ext1))"

definition disable :: "'p extension \<Rightarrow> 'p extension" where
  "disable ext = ext\<lparr>ext_provider := None, ext_searchEnginesConfig := JsonNull\<rparr>"

text \<open>The extension as its constructor leaves it.\<close>

definition PrefixWebSearchExtension :: "'p extension" where
  "PrefixWebSearchExtension = \<lparr>ext_provider = None, ext_searchEnginesConfig = JsonNull\<rparr>"

section \<open>Reference notions and example data\<close>

text \<open>
  Replacing the first occurrence of a pattern by a text taken literally: the reading of
  "the template with its first \<open>{query}\<close> replaced by the query", against which
  \<open>replace\<close> is compared.
\<close>

definition replaceFirst :: "string \<Rightarrow> string \<Rightarrow> string \<Rightarrow> string" where
  "replaceFirst s pat new =
     (case stringIndexOf s pat of
        None \<Rightarrow> s
      | Some i \<Rightarrow> take i s @ new @ drop (i + length pat) s)"

text \<open>
  A configuration for the worked examples: the prefix \<open>gg\<close>, the prefix \<open>bil\<close> with an
  address for the empty query, and a default that differs from both.
\<close>

definition exampleConfig :: "engine list" where
  "exampleConfig =
     [\<lparr>prefix = ''gg'', url = ''https://www.google.com/search?q={query}'',
       empty_query_url = None\<rparr>,
      \<lparr>prefix = ''bil'', url = ''https://search.bilibili.com/all?keyword={query}'',
       empty_query_url = Some ''https://www.bilibili.com''\<rparr>,
      \<lparr>prefix = ''_default_'', url = ''https://duckduckgo.com/?q={query}'',
       empty_query_url = None\<rparr>]"

section \<open>Lemmas on the built-ins\<close>

text \<open>
  \<open>encodeURIComponent\<close> escapes the dollar sign, so the encoded query holds none and
  \<open>replace\<close> inserts it as it is.
\<close>

lemma hexDigit_not_dollar: "hexDigit n \<noteq> CHR ''$''"
proof -
  have "hexDigit n \<in> set ''0123456789ABCDEF''"
    unfolding hexDigit_def by (rule nth_mem) simp
  then show ?thesis by auto
qed

lemma encodeUnit_no_dollar: "CHR ''$'' \<notin> set (encodeUnit c)"
  using hexDigit_not_dollar [of "codeUnit c div 16"] hexDigit_not_dollar [of "codeUnit c mod 16"]
    hexDigit_not_dollar [of "(192 + codeUnit c div 64) div 16"]
    hexDigit_not_dollar [of "(192 + codeUnit c div 64) mod 16"]
    hexDigit_not_dollar [of "(128 + codeUnit c mod 64) div 16"]
    hexDigit_not_dollar [of "(128 + codeUnit c mod 64) mod 16"]
  by (simp add: encodeUnit_def percentByte_def uriUnreserved_def)

lemma encodeURIComponent_no_dollar: "CHR ''$'' \<notin> set (encodeURIComponent s)"
  by (simp add: encodeURIComponent_def encodeUnit_no_dollar)

lemma set_join: "set (join sep xs) \<subseteq> set sep \<union> \<Union> (set ` set xs)"
  by (induction sep xs rule: join.induct) auto

lemma searchQueryParam_no_dollar: "CHR ''$'' \<notin> set (searchQueryParam ts)"
proof
  assume "CHR ''$'' \<in> set (searchQueryParam ts)"
  then have "CHR ''$'' \<in> set ''+'' \<union> \<Union> (set ` set (map encodeURIComponent ts))"
    unfolding searchQueryParam_def using set_join by blast
  then show False by (auto simp: encodeURIComponent_no_dollar)
qed

lemma getSubstitution_plain:
  "CHR ''$'' \<notin> set rep \<Longrightarrow> getSubstitution matched pre post rep = rep"
  by (induction matched pre post rep rule: getSubstitution.induct) auto

lemma replace_plain: "CHR ''$'' \<notin> set rep \<Longrightarrow> replace s pat rep = replaceFirst s pat rep"
  by (simp add: replace_def replaceFirst_def getSubstitution_plain split: option.splits)

lemma replace_searchQueryParam:
  "replace t pat (searchQueryParam ts) = replaceFirst t pat (searchQueryParam ts)"
  by (rule replace_plain) (rule searchQueryParam_no_dollar)

text \<open>
  \<open>stringIndexOf\<close> finds the first occurrence of the pattern, and \<open>replaceFirst\<close> puts the
  new text in its place.
\<close>

lemma take_eq_length: "take n xs = ys \<Longrightarrow> length ys \<le> length xs"
proof -
  assume "take n xs = ys"
  then have "length ys = length (take n xs)" by simp
  then show ?thesis by simp
qed

lemma stringIndexOf_Some:
  "stringIndexOf s pat = Some i \<Longrightarrow>
     i + length pat \<le> length s \<and> take (length pat) (drop i s) = pat
     \<and> (\<forall>j<i. take (length pat) (drop j s) \<noteq> pat)"
proof (induction s arbitrary: i)
  case Nil
  then show ?case by (simp split: if_splits)
next
  case (Cons c cs)
  show ?case
  proof (cases "take (length pat) (c # cs) = pat")
    case True
    with Cons.prems have i: "i = 0" by simp
    from True have "length pat \<le> length (c # cs)" by (rule take_eq_length)
    with True i show ?thesis by simp
  next
    case False
    with Cons.prems obtain k where k: "stringIndexOf cs pat = Some k" and i: "i = Suc k"
      by auto
    from Cons.IH [OF k]
    have a: "k + length pat \<le> length cs" and b: "take (length pat) (drop k cs) = pat"
      and c: "\<forall>j<k. take (length pat) (drop j cs) \<noteq> pat"
      by simp_all
    have "take (length pat) (drop j (c # cs)) \<noteq> pat" if "j < Suc k" for j
    proof (cases j)
      case 0
      with False show ?thesis by simp
    next
      case (Suc j')
      with that c show ?thesis by simp
    qed
    with a b i show ?thesis by simp
  qed
qed

lemma replaceFirst_occurrence:
  assumes "stringIndexOf s pat = Some i"
  shows "s = take i s @ pat @ drop (i + length pat) s"
    and "replaceFirst s pat new = take i s @ new @ drop (i + length pat) s"
proof -
  from stringIndexOf_Some [OF assms] have "take (length pat) (drop i s) = pat" by simp
  then have "drop i s = pat @ drop (length pat) (drop i s)"
    by (metis append_take_drop_id)
  then have "drop i s = pat @ drop (i + length pat) s" by (simp add: add.commute)
  then show "s = take i s @ pat @ drop (i + length pat) s"
    by (metis append_take_drop_id)
  show "replaceFirst s pat new = take i s @ new @ drop (i + length pat) s"
    using assms by (simp add: replaceFirst_def)
qed

text \<open>Every match lies inside the string, and ends no earlier than it starts.\<close>

lemma ends_bounds:
  "i \<le> length s \<Longrightarrow> e \<in> set (ends r s i) \<Longrightarrow> i \<le> e \<and> e \<le> length s"
proof (induction r arbitrary: i e)
  case (Lit w)
  from Lit.prems(2) have w: "take (length w) (drop i s) = w" and e: "e = i + length w"
    by (auto split: if_splits)
  from w have "length (take (length w) (drop i s)) = length w" by simp
  then have "length w \<le> length s - i" by simp
  with e Lit.prems(1) show ?case by simp
next
  case (Cat a b)
  from Cat.prems(2) obtain k where k: "k \<in> set (ends a s i)" "e \<in> set (ends b s k)" by auto
  from Cat.IH(1) [OF Cat.prems(1) k(1)] have ik: "i \<le> k" "k \<le> length s" by simp_all
  from Cat.IH(2) [OF ik(2) k(2)] ik show ?case by simp
next
  case (Opt a)
  from Opt.prems(2) have "e \<in> set (ends a s i) \<or> e = i" by auto
  with Opt.IH [OF Opt.prems(1)] Opt.prems(1) show ?case by blast
next
  case (Rep lo hi cl)
  define n where "n = length (takeWhile (inClass cl) (drop i s))"
  define m where "m = (case hi of None \<Rightarrow> n | Some h \<Rightarrow> min h n)"
  have n: "n \<le> length s - i"
    unfolding n_def by (metis length_takeWhile_le length_drop)
  have m: "m \<le> n" unfolding m_def by (cases hi) simp_all
  have "ends (Rep lo hi cl) s i = (if m < lo then [] else map (\<lambda>k. i + k) (rev [lo..<Suc m]))"
    unfolding m_def n_def by (simp add: Let_def)
  note eq = this
  from Rep.prems(2) have "e \<in> set (if m < lo then [] else map (\<lambda>k. i + k) (rev [lo..<Suc m]))"
    unfolding eq .
  then have "e \<in> (\<lambda>k. i + k) ` {lo..<Suc m}"
    by (simp split: if_splits del: upt_Suc)
  then have "i \<le> e \<and> e \<le> i + m" by auto
  with n m Rep.prems(1) show ?case by arith
next
  case WordBoundary
  from WordBoundary.prems(2) have "e = i" by (simp split: if_splits)
  with WordBoundary.prems(1) show ?case by simp
qed

lemma regExpBuiltinExec_bounds:
  "regExpBuiltinExec r s k = Some (i, e) \<Longrightarrow> k \<le> i \<and> i \<le> e \<and> e \<le> length s"
proof (induction r s k rule: regExpBuiltinExec.induct)
  case (1 r s lastIndex)
  show ?case
  proof (cases "length s < lastIndex")
    case True
    with "1.prems" show ?thesis by (simp add: regExpBuiltinExec.simps)
  next
    case False
    show ?thesis
    proof (cases "ends r s lastIndex")
      case Nil
      with False "1.prems" have "regExpBuiltinExec r s (Suc lastIndex) = Some (i, e)"
        by (simp add: regExpBuiltinExec.simps [of r s lastIndex])
      from "1.IH" [OF False Nil this] show ?thesis by simp
    next
      case (Cons x xs)
      with False "1.prems" have "i = lastIndex" "e = x"
        by (simp_all add: regExpBuiltinExec.simps [of r s lastIndex])
      moreover have "x \<in> set (ends r s lastIndex)" using Cons by simp
      ultimately show ?thesis using ends_bounds [of lastIndex s x r] False by simp
    qed
  qed
qed

lemma isDirectUrl_iff_exec:
  "isDirectUrl s \<longleftrightarrow> regExpBuiltinExec urlRegex s 0 = Some (0, length s)"
proof (cases "regExpBuiltinExec urlRegex s 0")
  case None
  then show ?thesis by (simp add: isDirectUrl_def test_def match0_def)
next
  case (Some m)
  obtain i e where m: "m = (i, e)" by (cases m)
  from regExpBuiltinExec_bounds [of urlRegex s 0 i e] Some m
  have b: "i \<le> e" "e \<le> length s" by simp_all
  then have "length (take (e - i) (drop i s)) = e - i" by simp
  with Some m b show ?thesis
    by (auto simp: isDirectUrl_def test_def match0_def)
qed

lemma isDirectUrl_iff_match0: "isDirectUrl s \<longleftrightarrow> match0 s urlRegex = Some s"
proof (cases "regExpBuiltinExec urlRegex s 0")
  case None
  then show ?thesis by (simp add: isDirectUrl_def test_def match0_def)
next
  case (Some m)
  obtain i e where m: "m = (i, e)" by (cases m)
  from regExpBuiltinExec_bounds [of urlRegex s 0 i e] Some m
  have b: "i \<le> e" "e \<le> length s" by simp_all
  have "take (e - i) (drop i s) = s \<longleftrightarrow> i = 0 \<and> e = length s"
  proof
    assume "take (e - i) (drop i s) = s"
    then have "length (take (e - i) (drop i s)) = length s" by simp
    with b have "e - i = length s" by simp
    with b show "i = 0 \<and> e = length s" by arith
  qed simp
  with Some m show ?thesis
    unfolding isDirectUrl_iff_exec by (simp add: match0_def)
qed

section \<open>Lemmas on the provider\<close>

text \<open>
  The lookup of a key in the map the constructor builds, and the map under every call.
\<close>

lemma foldl_upd_None:
  "foldl (\<lambda>m e. m(k e \<mapsto> v e)) m0 es x = None \<longleftrightarrow> m0 x = None \<and> x \<notin> k ` set es"
  by (induction es arbitrary: m0) auto

lemma default_after_constructor:
  "searchEnginesMap (PrefixWebSearchProvider cfg) ''_default_'' \<noteq> None"
  by (simp add: PrefixWebSearchProvider_def Let_def)

lemma default_after_constructor_p0:
  "searchEnginesMap_p0 (PrefixWebSearchProvider_p0 cfg) ''_default_'' \<noteq> None"
  by (simp add: PrefixWebSearchProvider_p0_def Let_def)

lemma default_synthesized:
  "''_default_'' \<notin> prefix ` set cfg \<Longrightarrow>
     searchEnginesMap (PrefixWebSearchProvider cfg) ''_default_'' = Some googleTemplate"
  by (simp add: PrefixWebSearchProvider_def Let_def foldl_upd_None)

lemma default_synthesized_p0:
  "''_default_'' \<notin> prefix ` set cfg \<Longrightarrow>
     searchEnginesMap_p0 (PrefixWebSearchProvider_p0 cfg) ''_default_''
       = Some \<lparr>entry_url = googleTemplate, entry_empty_query_url = None\<rparr>"
  by (simp add: PrefixWebSearchProvider_p0_def Let_def foldl_upd_None)

lemma after_keeps_map: "searchEnginesMap (after p operation) = searchEnginesMap p"
  by (cases operation)
     (simp_all add: getSubsearchResultSet_def getInitialResultSet_def Let_def)

lemma after_p0_keeps_map: "searchEnginesMap_p0 (after_p0 p operation) = searchEnginesMap_p0 p"
  by (cases operation)
     (simp_all add: getSubsearchResultSet_p0_def getInitialResultSet_p0_def Let_def)

lemma foldl_after_keeps_map: "searchEnginesMap (foldl after p ops) = searchEnginesMap p"
  by (induction ops arbitrary: p) (simp_all add: after_keeps_map)

lemma foldl_after_p0_keeps_map:
  "searchEnginesMap_p0 (foldl after_p0 p ops) = searchEnginesMap_p0 p"
  by (induction ops arbitrary: p) (simp_all add: after_p0_keeps_map)

lemma those_map_Some: "those (map Some xs) = Some xs"
  by (induction xs) simp_all

lemma those_None_iff: "None \<in> set es \<Longrightarrow> those es = None"
  by (induction es) (auto split: option.splits)

lemma fullInputString_single: "fullInputString [t] = t"
  by (simp add: fullInputString_def)

lemma bil_not_direct: "\<not> isDirectUrl ''bil''"
  by code_simp

lemma bil_lower: "toLowerCase ''bil'' = ''bil''"
  by code_simp

section \<open>The claims\<close>

text \<open>
  Claim C1, as amended. For every non-empty term list whose space-joined form is not a
  direct URL, with at least two terms, both files select the entry whose key is the
  lower-cased first term when the table has that key, with the remaining terms as the
  query, and the entry \<open>_default_\<close> with all terms otherwise; the target is the entry's
  template with its first \<open>{query}\<close> replaced by the encoded terms joined by \<open>+\<close>. For a
  single term, src/extension.js uses \<open>_default_\<close> with that term whether or not it is a key;
  part\_000 takes a key also then, and returns the entry's \<open>empty_query_url\<close> when that is
  defined and not empty, the template with the empty query otherwise.
\<close>

theorem prefix_or_default_resolution:
  assumes "terms \<noteq> []" and "\<not> isDirectUrl (fullInputString terms)"
  shows
    "(searchEnginesMap p (toLowerCase (hd terms)) = Some t \<and> 2 \<le> length terms \<longrightarrow>
        targetUrl p terms
          = Inr (replaceFirst t ''{query}'' (join ''+'' (map encodeURIComponent (tl terms)))))
     \<and> ((searchEnginesMap p (toLowerCase (hd terms)) = None \<or> length terms = 1)
          \<and> searchEnginesMap p ''_default_'' = Some d \<longrightarrow>
        targetUrl p terms
          = Inr (replaceFirst d ''{query}'' (join ''+'' (map encodeURIComponent terms))))
     \<and> (searchEnginesMap_p0 q (toLowerCase (hd terms)) = Some c
          \<and> (2 \<le> length terms \<or> entry_empty_query_url c = None
               \<or> entry_empty_query_url c = Some []) \<longrightarrow>
        targetUrl_p0 q terms
          = Inr (replaceFirst (entry_url c) ''{query}''
                   (join ''+'' (map encodeURIComponent (tl terms)))))
     \<and> (searchEnginesMap_p0 q (toLowerCase (hd terms)) = Some c \<and> length terms = 1
          \<and> entry_empty_query_url c = Some u \<and> u \<noteq> [] \<longrightarrow>
        targetUrl_p0 q terms = Inr u)
     \<and> (searchEnginesMap_p0 q (toLowerCase (hd terms)) = None
          \<and> searchEnginesMap_p0 q ''_default_'' = Some dc \<longrightarrow>
        targetUrl_p0 q terms
          = Inr (replaceFirst (entry_url dc) ''{query}''
                   (join ''+'' (map encodeURIComponent terms))))"
proof -
  from assms(1) obtain x xs where terms: "terms = x # xs" by (cases terms) auto
  have len: "2 \<le> length terms \<longleftrightarrow> xs \<noteq> []" "length terms = 1 \<longleftrightarrow> xs = []"
    "Suc 0 < length terms \<longleftrightarrow> xs \<noteq> []" "length terms = 0 \<longleftrightarrow> False"
    "length terms = Suc 0 \<longleftrightarrow> xs = []"
    by (auto simp: terms intro: Suc_leI)
  have ft: "firstTerm terms = Some (toLowerCase x)" "hd terms = x" "tl terms = xs"
    by (simp_all add: terms firstTerm_def)
  have a: "searchEnginesMap p (toLowerCase (hd terms)) = Some t \<and> 2 \<le> length terms \<longrightarrow>
        targetUrl p terms = Inr (replaceFirst t ''{query}'' (searchQueryParam (tl terms)))"
    using assms(2) by (simp add: targetUrl_def has_def ft len replace_searchQueryParam)
  have b: "(searchEnginesMap p (toLowerCase (hd terms)) = None \<or> length terms = 1)
          \<and> searchEnginesMap p ''_default_'' = Some d \<longrightarrow>
        targetUrl p terms = Inr (replaceFirst d ''{query}'' (searchQueryParam terms))"
    using assms(2) by (auto simp: targetUrl_def has_def ft len replace_searchQueryParam)
  have c: "searchEnginesMap_p0 q (toLowerCase (hd terms)) = Some c
          \<and> (2 \<le> length terms \<or> entry_empty_query_url c = None
               \<or> entry_empty_query_url c = Some []) \<longrightarrow>
        targetUrl_p0 q terms
          = Inr (replaceFirst (entry_url c) ''{query}'' (searchQueryParam (tl terms)))"
    using assms(2)
    by (auto simp: targetUrl_p0_def has_def ft len truthy_def replace_searchQueryParam)
  have d: "searchEnginesMap_p0 q (toLowerCase (hd terms)) = Some c \<and> length terms = 1
          \<and> entry_empty_query_url c = Some u \<and> u \<noteq> [] \<longrightarrow>
        targetUrl_p0 q terms = Inr u"
    using assms(2) by (simp add: targetUrl_p0_def has_def ft len truthy_def)
  have e: "searchEnginesMap_p0 q (toLowerCase (hd terms)) = None
          \<and> searchEnginesMap_p0 q ''_default_'' = Some dc \<longrightarrow>
        targetUrl_p0 q terms
          = Inr (replaceFirst (entry_url dc) ''{query}'' (searchQueryParam terms))"
    using assms
    by (simp add: targetUrl_p0_def has_def ft len truthy_def replace_searchQueryParam)
  from a b c d e show ?thesis unfolding searchQueryParam_def by blast
qed

text \<open>
  C1 at the input \<open>gg cats\<close> of the specification: both files give the search address of
  the prefix \<open>gg\<close> for \<open>cats\<close>.
\<close>

theorem prefix_or_default_resolution_witness:
  "[''gg'', ''cats''] \<noteq> [] \<and> \<not> isDirectUrl (fullInputString [''gg'', ''cats''])
   \<and> searchEnginesMap (PrefixWebSearchProvider exampleConfig) (toLowerCase (hd [''gg'', ''cats'']))
       = Some ''https://www.google.com/search?q={query}''
   \<and> targetUrl (PrefixWebSearchProvider exampleConfig) [''gg'', ''cats'']
       = Inr ''https://www.google.com/search?q=cats''
   \<and> searchEnginesMap_p0 (PrefixWebSearchProvider_p0 exampleConfig)
         (toLowerCase (hd [''gg'', ''cats'']))
       = Some \<lparr>entry_url = ''https://www.google.com/search?q={query}'',
               entry_empty_query_url = None\<rparr>
   \<and> targetUrl_p0 (PrefixWebSearchProvider_p0 exampleConfig) [''gg'', ''cats'']
       = Inr ''https://www.google.com/search?q=cats''"
proof -
  have h1: "[''gg'', ''cats''] \<noteq> []" by simp
  have h2: "\<not> isDirectUrl (fullInputString [''gg'', ''cats''])" by code_simp
  have k: "searchEnginesMap (PrefixWebSearchProvider exampleConfig)
             (toLowerCase (hd [''gg'', ''cats'']))
           = Some ''https://www.google.com/search?q={query}''"
    by code_simp
  have k0: "searchEnginesMap_p0 (PrefixWebSearchProvider_p0 exampleConfig)
              (toLowerCase (hd [''gg'', ''cats'']))
            = Some \<lparr>entry_url = ''https://www.google.com/search?q={query}'',
                    entry_empty_query_url = None\<rparr>"
    by code_simp
  have l: "2 \<le> length [''gg'', ''cats'']" by simp
  have r: "replaceFirst ''https://www.google.com/search?q={query}'' ''{query}''
             (join ''+'' (map encodeURIComponent (tl [''gg'', ''cats''])))
           = ''https://www.google.com/search?q=cats''"
    by code_simp
  note T = prefix_or_default_resolution [OF h1 h2]
  have x: "targetUrl (PrefixWebSearchProvider exampleConfig) [''gg'', ''cats'']
       = Inr (replaceFirst ''https://www.google.com/search?q={query}'' ''{query}''
                (join ''+'' (map encodeURIComponent (tl [''gg'', ''cats'']))))"
    by (rule T [THEN conjunct1, THEN mp]) (rule conjI [OF k l])
  have y: "targetUrl_p0 (PrefixWebSearchProvider_p0 exampleConfig) [''gg'', ''cats'']
       = Inr (replaceFirst
                (entry_url \<lparr>entry_url = ''https://www.google.com/search?q={query}'',
                             entry_empty_query_url = None\<rparr>) ''{query}''
                (join ''+'' (map encodeURIComponent (tl [''gg'', ''cats'']))))"
    by (rule T [THEN conjunct2, THEN conjunct2, THEN conjunct1, THEN mp])
       (rule conjI [OF k0 disjI1 [OF l]])
  have y': "targetUrl_p0 (PrefixWebSearchProvider_p0 exampleConfig) [''gg'', ''cats'']
       = Inr ''https://www.google.com/search?q=cats''"
    using y r by simp
  from h1 h2 k k0 x [unfolded r] y' show ?thesis by (intro conjI)
qed

text \<open>
  C1 as written fails on both files. In src/extension.js the single term \<open>gg\<close> is a key,
  and the target is the default template with \<open>gg\<close>, not the template of \<open>gg\<close>. In
  part\_000 the single term \<open>bil\<close> gives the \<open>empty_query_url\<close> of its entry, not the
  template with a replaced placeholder.
\<close>

theorem prefix_or_default_resolution_counterexample:
  "[''gg''] \<noteq> [] \<and> \<not> isDirectUrl (fullInputString [''gg''])
   \<and> searchEnginesMap (PrefixWebSearchProvider exampleConfig) (toLowerCase ''gg'')
       = Some ''https://www.google.com/search?q={query}''
   \<and> targetUrl (PrefixWebSearchProvider exampleConfig) [''gg'']
       = Inr ''https://duckduckgo.com/?q=gg''
   \<and> targetUrl (PrefixWebSearchProvider exampleConfig) [''gg'']
       \<noteq> Inr (replaceFirst ''https://www.google.com/search?q={query}'' ''{query}''
                (join ''+'' (map encodeURIComponent (tl [''gg'']))))
   \<and> \<not> isDirectUrl (fullInputString [''bil''])
   \<and> searchEnginesMap_p0 (PrefixWebSearchProvider_p0 exampleConfig) (toLowerCase ''bil'')
       = Some \<lparr>entry_url = ''https://search.bilibili.com/all?keyword={query}'',
               entry_empty_query_url = Some ''https://www.bilibili.com''\<rparr>
   \<and> targetUrl_p0 (PrefixWebSearchProvider_p0 exampleConfig) [''bil'']
       = Inr ''https://www.bilibili.com''
   \<and> targetUrl_p0 (PrefixWebSearchProvider_p0 exampleConfig) [''bil'']
       \<noteq> Inr (replaceFirst ''https://search.bilibili.com/all?keyword={query}'' ''{query}''
                (join ''+'' (map encodeURIComponent (tl [''bil'']))))"
  by code_simp

text \<open>
  Claim C2. The input is classified as a direct URL exactly when the match that the search
  for the pattern reports starts at index 0 and ends at the end of the joined terms, that
  is, when the matched text is the whole input; and then \<open>targetUrl\<close> is the joined input,
  in both files.
\<close>

theorem direct_url_iff_match_spans_input:
  "(isDirectUrl (fullInputString terms) \<longleftrightarrow>
      regExpBuiltinExec urlRegex (fullInputString terms) 0
        = Some (0, length (fullInputString terms)))
   \<and> (isDirectUrl (fullInputString terms) \<longleftrightarrow>
      match0 (fullInputString terms) urlRegex = Some (fullInputString terms))
   \<and> (isDirectUrl (fullInputString terms) \<longrightarrow>
      targetUrl p terms = Inr (fullInputString terms)
      \<and> targetUrl_p0 q terms = Inr (fullInputString terms))"
  using isDirectUrl_iff_exec [of "fullInputString terms"]
    isDirectUrl_iff_match0 [of "fullInputString terms"]
  by (simp add: targetUrl_def targetUrl_p0_def)

text \<open>
  C2 at \<open>example.com\<close>, which is a direct URL, and at \<open>example.com foo\<close>, where the
  pattern matches the first eleven characters only and the input is not a direct URL.
\<close>

theorem direct_url_iff_match_spans_input_witness:
  "isDirectUrl (fullInputString [''example.com''])
   \<and> regExpBuiltinExec urlRegex ''example.com'' 0 = Some (0, 11)
   \<and> targetUrl (PrefixWebSearchProvider exampleConfig) [''example.com''] = Inr ''example.com''
   \<and> targetUrl_p0 (PrefixWebSearchProvider_p0 exampleConfig) [''example.com'']
       = Inr ''example.com''
   \<and> regExpBuiltinExec urlRegex (fullInputString [''example.com'', ''foo'']) 0 = Some (0, 11)
   \<and> \<not> isDirectUrl (fullInputString [''example.com'', ''foo''])"
proof -
  have f: "fullInputString [''example.com''] = ''example.com''"
    by (simp add: fullInputString_def)
  have d: "isDirectUrl (fullInputString [''example.com''])" by code_simp
  have e: "regExpBuiltinExec urlRegex (fullInputString [''example.com'', ''foo'']) 0 = Some (0, 11)"
    by code_simp
  have l: "length (fullInputString [''example.com'', ''foo'']) = 15"
    by (simp add: fullInputString_def)
  from direct_url_iff_match_spans_input
         [of "[''example.com'']" "PrefixWebSearchProvider exampleConfig"
             "PrefixWebSearchProvider_p0 exampleConfig"] d f
  have a: "regExpBuiltinExec urlRegex ''example.com'' 0 = Some (0, 11)"
    "targetUrl (PrefixWebSearchProvider exampleConfig) [''example.com''] = Inr ''example.com''"
    "targetUrl_p0 (PrefixWebSearchProvider_p0 exampleConfig) [''example.com'']
       = Inr ''example.com''"
    by simp_all
  from direct_url_iff_match_spans_input [of "[''example.com'', ''foo'']"] e l
  have n: "\<not> isDirectUrl (fullInputString [''example.com'', ''foo''])" by simp
  from d a e n show ?thesis by simp
qed

text \<open>
  Claim C3, as amended. In part\_000, when the table maps \<open>bil\<close> to an entry whose
  \<open>empty_query_url\<close> is \<open>https://www.bilibili.com\<close>, the input \<open>bil\<close> resolves to that
  address, whatever the template of the entry is. In src/extension.js the table keeps the
  template of an entry only, and the single term \<open>bil\<close> resolves to the template of
  \<open>_default_\<close> with its first \<open>{query}\<close> replaced by \<open>bil\<close>, whatever the configuration says
  for \<open>bil\<close>.
\<close>

theorem bil_empty_query_url:
  "(searchEnginesMap_p0 q ''bil'' = Some c
      \<and> entry_empty_query_url c = Some ''https://www.bilibili.com'' \<longrightarrow>
      targetUrl_p0 q [''bil''] = Inr ''https://www.bilibili.com''
      \<and> activateResult_p0 q resultId [''bil'']
          = Inr (''xdg-open '' @ [CHR 0x22] @ ''https://www.bilibili.com'' @ [CHR 0x22]))
   \<and> (searchEnginesMap p ''_default_'' = Some d \<longrightarrow>
      targetUrl p [''bil''] = Inr (replaceFirst d ''{query}'' ''bil''))"
proof -
  have e: "searchQueryParam [''bil''] = ''bil''" by code_simp
  have a: "searchEnginesMap_p0 q ''bil'' = Some c
      \<and> entry_empty_query_url c = Some ''https://www.bilibili.com'' \<longrightarrow>
      targetUrl_p0 q [''bil''] = Inr ''https://www.bilibili.com''
      \<and> activateResult_p0 q resultId [''bil'']
          = Inr (''xdg-open '' @ [CHR 0x22] @ ''https://www.bilibili.com'' @ [CHR 0x22])"
    using bil_not_direct bil_lower
    by (simp add: activateResult_p0_def targetUrl_p0_def fullInputString_single has_def
          firstTerm_def truthy_def cmd_def)
  have b: "searchEnginesMap p ''_default_'' = Some d \<longrightarrow>
      targetUrl p [''bil''] = Inr (replaceFirst d ''{query}'' ''bil'')"
    using bil_not_direct replace_searchQueryParam [of d "''{query}''" "[''bil'']"]
    by (simp add: targetUrl_def fullInputString_single e)
  from a b show ?thesis by (intro conjI)
qed

text \<open>
  C3 on the two providers built from the example configuration, whose entry \<open>bil\<close> has the
  \<open>empty_query_url\<close> of the claim.
\<close>

theorem bil_empty_query_url_witness:
  "searchEnginesMap_p0 (PrefixWebSearchProvider_p0 exampleConfig) ''bil''
     = Some \<lparr>entry_url = ''https://search.bilibili.com/all?keyword={query}'',
             entry_empty_query_url = Some ''https://www.bilibili.com''\<rparr>
   \<and> targetUrl_p0 (PrefixWebSearchProvider_p0 exampleConfig) [''bil'']
       = Inr ''https://www.bilibili.com''
   \<and> searchEnginesMap (PrefixWebSearchProvider exampleConfig) ''_default_''
       = Some ''https://duckduckgo.com/?q={query}''
   \<and> targetUrl (PrefixWebSearchProvider exampleConfig) [''bil'']
       = Inr ''https://duckduckgo.com/?q=bil''"
proof -
  have m: "searchEnginesMap_p0 (PrefixWebSearchProvider_p0 exampleConfig) ''bil''
     = Some \<lparr>entry_url = ''https://search.bilibili.com/all?keyword={query}'',
             entry_empty_query_url = Some ''https://www.bilibili.com''\<rparr>"
    by (simp add: PrefixWebSearchProvider_p0_def exampleConfig_def)
  have n: "entry_empty_query_url
             \<lparr>entry_url = ''https://search.bilibili.com/all?keyword={query}'',
              entry_empty_query_url = Some ''https://www.bilibili.com''\<rparr>
           = Some ''https://www.bilibili.com''"
    by simp
  have k: "searchEnginesMap (PrefixWebSearchProvider exampleConfig) ''_default_''
       = Some ''https://duckduckgo.com/?q={query}''"
    by (simp add: PrefixWebSearchProvider_def exampleConfig_def)
  have r: "replaceFirst ''https://duckduckgo.com/?q={query}'' ''{query}'' ''bil''
           = ''https://duckduckgo.com/?q=bil''"
    by code_simp
  have x: "targetUrl_p0 (PrefixWebSearchProvider_p0 exampleConfig) [''bil'']
       = Inr ''https://www.bilibili.com''"
    by (rule bil_empty_query_url [THEN conjunct1, THEN mp, THEN conjunct1])
       (rule conjI [OF m n])
  have y: "targetUrl (PrefixWebSearchProvider exampleConfig) [''bil'']
       = Inr (replaceFirst ''https://duckduckgo.com/?q={query}'' ''{query}'' ''bil'')"
    by (rule bil_empty_query_url [THEN conjunct2, THEN mp]) (rule k)
  from m x k y [unfolded r] show ?thesis by (intro conjI)
qed

text \<open>
  C3 as written fails on src/extension.js: from the configuration whose entry \<open>bil\<close> has
  the \<open>empty_query_url\<close> of the claim, the input \<open>bil\<close> resolves to a search for \<open>bil\<close>
  with the default engine, not to that address.
\<close>

theorem bil_empty_query_url_counterexample:
  "exampleConfig ! 1
     = \<lparr>prefix = ''bil'', url = ''https://search.bilibili.com/all?keyword={query}'',
        empty_query_url = Some ''https://www.bilibili.com''\<rparr>
   \<and> \<not> isDirectUrl (fullInputString [''bil''])
   \<and> searchEnginesMap (PrefixWebSearchProvider exampleConfig) ''bil''
       = Some ''https://search.bilibili.com/all?keyword={query}''
   \<and> targetUrl (PrefixWebSearchProvider exampleConfig) [''bil'']
       = Inr ''https://duckduckgo.com/?q=bil''
   \<and> targetUrl (PrefixWebSearchProvider exampleConfig) [''bil'']
       \<noteq> Inr ''https://www.bilibili.com''"
  by code_simp

text \<open>
  Claim C4, as amended. For a single term that is not a direct URL, src/extension.js uses
  the entry \<open>_default_\<close> with that term as the query, also when the lower-cased term is a
  key. In part\_000 the entry \<open>_default_\<close> is used for a single term only when the
  lower-cased term is not a key; when it is, the target is the entry's \<open>empty_query_url\<close>
  if that is defined and not empty, and the entry's template with the empty query
  otherwise.
\<close>

theorem single_term_resolution:
  assumes "\<not> isDirectUrl (fullInputString [t])"
  shows
    "(searchEnginesMap p ''_default_'' = Some d \<longrightarrow>
        targetUrl p [t] = Inr (replaceFirst d ''{query}'' (encodeURIComponent t)))
     \<and> (searchEnginesMap_p0 q (toLowerCase t) = None
          \<and> searchEnginesMap_p0 q ''_default_'' = Some dc \<longrightarrow>
        targetUrl_p0 q [t] = Inr (replaceFirst (entry_url dc) ''{query}'' (encodeURIComponent t)))
     \<and> (searchEnginesMap_p0 q (toLowerCase t) = Some c \<longrightarrow>
        targetUrl_p0 q [t]
          = Inr (if truthy (entry_empty_query_url c) then the (entry_empty_query_url c)
                 else replaceFirst (entry_url c) ''{query}'' []))"
proof -
  have s1: "searchQueryParam [t] = encodeURIComponent t" "searchQueryParam [] = []"
    by (simp_all add: searchQueryParam_def)
  have a: "searchEnginesMap p ''_default_'' = Some d \<longrightarrow>
        targetUrl p [t] = Inr (replaceFirst d ''{query}'' (searchQueryParam [t]))"
    using assms by (simp add: targetUrl_def replace_searchQueryParam)
  have b: "searchEnginesMap_p0 q (toLowerCase t) = None
          \<and> searchEnginesMap_p0 q ''_default_'' = Some dc \<longrightarrow>
        targetUrl_p0 q [t]
          = Inr (replaceFirst (entry_url dc) ''{query}'' (searchQueryParam [t]))"
    using assms
    by (simp add: targetUrl_p0_def has_def firstTerm_def replace_searchQueryParam)
  have c: "searchEnginesMap_p0 q (toLowerCase t) = Some c \<longrightarrow>
        targetUrl_p0 q [t]
          = Inr (if truthy (entry_empty_query_url c) then the (entry_empty_query_url c)
                 else replaceFirst (entry_url c) ''{query}'' (searchQueryParam []))"
    using assms
    by (simp add: targetUrl_p0_def has_def firstTerm_def replace_searchQueryParam)
  from a b c show ?thesis unfolding s1 by blast
qed

text \<open>
  C4 at the single term \<open>gg\<close>, a key of the example configuration: src/extension.js
  searches for \<open>gg\<close> with the default engine.
\<close>

theorem single_term_resolution_witness:
  "\<not> isDirectUrl (fullInputString [''gg''])
   \<and> searchEnginesMap (PrefixWebSearchProvider exampleConfig) ''gg''
       = Some ''https://www.google.com/search?q={query}''
   \<and> searchEnginesMap (PrefixWebSearchProvider exampleConfig) ''_default_''
       = Some ''https://duckduckgo.com/?q={query}''
   \<and> targetUrl (PrefixWebSearchProvider exampleConfig) [''gg'']
       = Inr ''https://duckduckgo.com/?q=gg''"
proof -
  have h: "\<not> isDirectUrl (fullInputString [''gg''])" by code_simp
  have g: "searchEnginesMap (PrefixWebSearchProvider exampleConfig) ''gg''
       = Some ''https://www.google.com/search?q={query}''"
    by code_simp
  have k: "searchEnginesMap (PrefixWebSearchProvider exampleConfig) ''_default_''
       = Some ''https://duckduckgo.com/?q={query}''"
    by code_simp
  have r: "replaceFirst ''https://duckduckgo.com/?q={query}'' ''{query}''
             (encodeURIComponent ''gg'') = ''https://duckduckgo.com/?q=gg''"
    by code_simp
  have x: "targetUrl (PrefixWebSearchProvider exampleConfig) [''gg'']
       = Inr (replaceFirst ''https://duckduckgo.com/?q={query}'' ''{query}''
                (encodeURIComponent ''gg''))"
    by (rule single_term_resolution [OF h, THEN conjunct1, THEN mp]) (rule k)
  from h g k x [unfolded r] show ?thesis by (intro conjI)
qed

text \<open>
  C4 as written fails on part\_000: for the single term \<open>gg\<close> the target is the template
  of \<open>gg\<close> with the empty query, not the default template with \<open>gg\<close>.
\<close>

theorem single_term_resolution_counterexample:
  "\<not> isDirectUrl (fullInputString [''gg''])
   \<and> searchEnginesMap_p0 (PrefixWebSearchProvider_p0 exampleConfig) ''_default_''
       = Some \<lparr>entry_url = ''https://duckduckgo.com/?q={query}'', entry_empty_query_url = None\<rparr>
   \<and> searchEnginesMap_p0 (PrefixWebSearchProvider_p0 exampleConfig) (toLowerCase ''gg'')
       = Some \<lparr>entry_url = ''https://www.google.com/search?q={query}'',
               entry_empty_query_url = None\<rparr>
   \<and> targetUrl_p0 (PrefixWebSearchProvider_p0 exampleConfig) [''gg'']
       = Inr ''https://www.google.com/search?q=''
   \<and> targetUrl_p0 (PrefixWebSearchProvider_p0 exampleConfig) [''gg'']
       \<noteq> Inr (replaceFirst ''https://duckduckgo.com/?q={query}'' ''{query}''
                (join ''+'' (map encodeURIComponent [''gg''])))"
  by code_simp

text \<open>
  Claim C5, as amended. For the query terms \<open>hello\<close> and \<open>world!\<close> the encoded
  parameter is \<open>hello+world!\<close>: \<open>encodeURIComponent\<close> leaves the exclamation mark as it
  is, and the encoded terms are joined by \<open>+\<close>. A character outside its unescaped set is
  escaped: \<open>world?\<close> becomes \<open>world%3F\<close>.
\<close>

theorem hello_world_query_param:
  "searchQueryParam [''hello'', ''world!''] = ''hello+world!''
   \<and> searchQueryParam [''hello'', ''world?''] = ''hello+world%3F''
   \<and> targetUrl (PrefixWebSearchProvider exampleConfig) [''hello'', ''world!'']
       = Inr ''https://duckduckgo.com/?q=hello+world!''
   \<and> targetUrl_p0 (PrefixWebSearchProvider_p0 exampleConfig) [''hello'', ''world!'']
       = Inr ''https://duckduckgo.com/?q=hello+world!''"
  by code_simp

text \<open>
  C5 as written fails: the parameter is not \<open>hello+world%21\<close>.
\<close>

theorem hello_world_query_param_counterexample:
  "searchQueryParam [''hello'', ''world!''] \<noteq> ''hello+world%21''"
  by code_simp

text \<open>
  Claim C6. After the constructor, for every configuration, the table has the key
  \<open>_default_\<close>, mapped to the Google search template when no entry of the configuration
  has that prefix; and after any sequence of calls on the provider the table is the one the
  constructor built. In both files.
\<close>

theorem default_entry_present_and_table_fixed:
  "searchEnginesMap (PrefixWebSearchProvider cfg) ''_default_'' \<noteq> None
   \<and> (''_default_'' \<notin> prefix ` set cfg \<longrightarrow>
        searchEnginesMap (PrefixWebSearchProvider cfg) ''_default_''
          = Some ''https://www.google.com/search?q={query}'')
   \<and> searchEnginesMap (foldl after (PrefixWebSearchProvider cfg) ops)
       = searchEnginesMap (PrefixWebSearchProvider cfg)
   \<and> searchEnginesMap_p0 (PrefixWebSearchProvider_p0 cfg) ''_default_'' \<noteq> None
   \<and> (''_default_'' \<notin> prefix ` set cfg \<longrightarrow>
        searchEnginesMap_p0 (PrefixWebSearchProvider_p0 cfg) ''_default_''
          = Some \<lparr>entry_url = ''https://www.google.com/search?q={query}'',
                  entry_empty_query_url = None\<rparr>)
   \<and> searchEnginesMap_p0 (foldl after_p0 (PrefixWebSearchProvider_p0 cfg) ops)
       = searchEnginesMap_p0 (PrefixWebSearchProvider_p0 cfg)"
  using default_after_constructor [of cfg] default_after_constructor_p0 [of cfg]
    default_synthesized [of cfg] default_synthesized_p0 [of cfg]
    foldl_after_keeps_map foldl_after_p0_keeps_map
  by (simp add: googleTemplate_def)

text \<open>
  C6 for a configuration without a default entry, after a search, its metadata and its
  activation.
\<close>

theorem default_entry_present_and_table_fixed_witness:
  "''_default_'' \<notin> prefix ` set [\<lparr>prefix = ''gg'', url = ''u'', empty_query_url = None\<rparr>]
   \<and> searchEnginesMap
        (foldl after
           (PrefixWebSearchProvider [\<lparr>prefix = ''gg'', url = ''u'', empty_query_url = None\<rparr>])
           [GetInitialResultSet [''gg'', ''cats''], GetResultMetas [''custom-search''],
            ActivateResult ''custom-search'' [''gg'', ''cats'']])
        ''_default_'' = Some ''https://www.google.com/search?q={query}''
   \<and> searchEnginesMap_p0
        (foldl after_p0
           (PrefixWebSearchProvider_p0 [\<lparr>prefix = ''gg'', url = ''u'', empty_query_url = None\<rparr>])
           [GetInitialResultSet [''gg'', ''cats''], GetResultMetas [''custom-search''],
            ActivateResult ''custom-search'' [''gg'', ''cats'']])
        ''_default_''
       = Some \<lparr>entry_url = ''https://www.google.com/search?q={query}'',
               entry_empty_query_url = None\<rparr>"
proof -
  have h: "''_default_'' \<notin> prefix ` set [\<lparr>prefix = ''gg'', url = ''u'', empty_query_url = None\<rparr>]"
    by simp
  from h default_entry_present_and_table_fixed
         [of "[\<lparr>prefix = ''gg'', url = ''u'', empty_query_url = None\<rparr>]"
             "[GetInitialResultSet [''gg'', ''cats''], GetResultMetas [''custom-search''],
               ActivateResult ''custom-search'' [''gg'', ''cats'']]"]
  show ?thesis by simp
qed

text \<open>
  Claim C7. For the empty term list \<open>getInitialResultSet\<close> resolves with the empty list
  of identifiers (it does not reject), having stored the empty list as the last terms. In
  both files.
\<close>

theorem empty_terms_resolve_empty:
  "getInitialResultSet p [] = (Resolved [], p\<lparr>lastParsedTerms := []\<rparr>)
   \<and> getInitialResultSet_p0 q [] = (Resolved [], q\<lparr>lastParsedTerms_p0 := []\<rparr>)"
  by (simp add: getInitialResultSet_def getInitialResultSet_p0_def)

text \<open>
  Claim C8. The command line is \<open>xdg-open\<close> followed by: the input itself when it is a
  direct URL that starts with \<open>http://\<close> or \<open>https://\<close>; \<open>https://\<close> and the input when
  it is a direct URL without such a start; the target in double quotes when the input is
  not a direct URL. In both files.
\<close>

theorem command_construction:
  "(isDirectUrl (fullInputString terms)
      \<and> (startsWith (fullInputString terms) ''http://''
           \<or> startsWith (fullInputString terms) ''https://'') \<longrightarrow>
      activateResult p resultId terms = Inr (''xdg-open '' @ fullInputString terms)
      \<and> activateResult_p0 q resultId terms = Inr (''xdg-open '' @ fullInputString terms))
   \<and> (isDirectUrl (fullInputString terms)
      \<and> \<not> startsWith (fullInputString terms) ''http://''
      \<and> \<not> startsWith (fullInputString terms) ''https://'' \<longrightarrow>
      activateResult p resultId terms = Inr (''xdg-open https://'' @ fullInputString terms)
      \<and> activateResult_p0 q resultId terms
          = Inr (''xdg-open https://'' @ fullInputString terms))
   \<and> (\<not> isDirectUrl (fullInputString terms) \<and> targetUrl p terms = Inr t \<longrightarrow>
      activateResult p resultId terms = Inr (''xdg-open '' @ [CHR 0x22] @ t @ [CHR 0x22]))
   \<and> (\<not> isDirectUrl (fullInputString terms) \<and> targetUrl_p0 q terms = Inr t \<longrightarrow>
      activateResult_p0 q resultId terms = Inr (''xdg-open '' @ [CHR 0x22] @ t @ [CHR 0x22]))"
  by (simp add: activateResult_def activateResult_p0_def targetUrl_def targetUrl_p0_def cmd_def)

text \<open>
  C8 at one input for each of the three cases.
\<close>

theorem command_construction_witness:
  "isDirectUrl (fullInputString [''http://example.com''])
   \<and> startsWith (fullInputString [''http://example.com'']) ''http://''
   \<and> activateResult (PrefixWebSearchProvider exampleConfig) ''direct-url'' [''http://example.com'']
       = Inr (''xdg-open '' @ ''http://example.com'')
   \<and> isDirectUrl (fullInputString [''example.com''])
   \<and> \<not> startsWith (fullInputString [''example.com'']) ''http://''
   \<and> \<not> startsWith (fullInputString [''example.com'']) ''https://''
   \<and> activateResult_p0 (PrefixWebSearchProvider_p0 exampleConfig) ''direct-url'' [''example.com'']
       = Inr (''xdg-open https://'' @ ''example.com'')
   \<and> \<not> isDirectUrl (fullInputString [''gg'', ''cats''])
   \<and> targetUrl (PrefixWebSearchProvider exampleConfig) [''gg'', ''cats'']
       = Inr ''https://www.google.com/search?q=cats''
   \<and> activateResult (PrefixWebSearchProvider exampleConfig) ''custom-search'' [''gg'', ''cats'']
       = Inr (''xdg-open '' @ [CHR 0x22] @ ''https://www.google.com/search?q=cats'' @ [CHR 0x22])"
proof -
  have f1: "fullInputString [''http://example.com''] = ''http://example.com''"
    and f2: "fullInputString [''example.com''] = ''example.com''"
    by (simp_all add: fullInputString_def)
  have d1: "isDirectUrl (fullInputString [''http://example.com''])" by code_simp
  have s1: "startsWith (fullInputString [''http://example.com'']) ''http://''" by code_simp
  have d2: "isDirectUrl (fullInputString [''example.com''])" by code_simp
  have s2: "\<not> startsWith (fullInputString [''example.com'']) ''http://''" by code_simp
  have s3: "\<not> startsWith (fullInputString [''example.com'']) ''https://''" by code_simp
  have d3: "\<not> isDirectUrl (fullInputString [''gg'', ''cats''])" by code_simp
  have t3: "targetUrl (PrefixWebSearchProvider exampleConfig) [''gg'', ''cats'']
       = Inr ''https://www.google.com/search?q=cats''"
    by code_simp
  have a: "activateResult (PrefixWebSearchProvider exampleConfig) ''direct-url''
             [''http://example.com'']
           = Inr (''xdg-open '' @ fullInputString [''http://example.com''])"
    by (rule command_construction [THEN conjunct1, THEN mp, THEN conjunct1])
       (rule conjI [OF d1 disjI1 [OF s1]])
  have b: "activateResult_p0 (PrefixWebSearchProvider_p0 exampleConfig) ''direct-url''
             [''example.com'']
           = Inr (''xdg-open https://'' @ fullInputString [''example.com''])"
    by (rule command_construction [THEN conjunct2, THEN conjunct1, THEN mp, THEN conjunct2])
       (rule conjI [OF d2 conjI [OF s2 s3]])
  have c: "activateResult (PrefixWebSearchProvider exampleConfig) ''custom-search''
             [''gg'', ''cats'']
           = Inr (''xdg-open '' @ [CHR 0x22] @ ''https://www.google.com/search?q=cats''
                  @ [CHR 0x22])"
    by (rule command_construction
               [THEN conjunct2, THEN conjunct2, THEN conjunct1, THEN mp])
       (rule conjI [OF d3 t3])
  from d1 s1 a [unfolded f1] d2 s2 s3 b [unfolded f2] d3 t3 c show ?thesis
    unfolding f1 f2 by (intro conjI)
qed

text \<open>
  Claim C9, as amended. When reading the file, decoding it or \<open>JSON.parse\<close> throws, the
  configuration is the fallback of two entries, \<open>gg\<close> and \<open>_default_\<close>, both with the
  Google search template; and \<open>enable\<close>, called without a configuration, returns without
  an exception, with that configuration and, when it had to create a provider, with one
  whose table has exactly these two keys. A text that parses is stored as parsed, and the
  fallback is not used: when it parses to null, to a value that is not an array or to an
  array with a null element, \<open>enable\<close> throws the TypeError of the constructor and no
  provider is created. In both files.
\<close>

theorem load_failure_gives_fallback:
  "ext_searchEnginesConfig (loadSearchEnginesConfig Threw ext)
     = JsonArray
         [Some \<lparr>prefix = ''gg'', url = ''https://www.google.com/search?q={query}'',
                 empty_query_url = None\<rparr>,
          Some \<lparr>prefix = ''_default_'', url = ''https://www.google.com/search?q={query}'',
                 empty_query_url = None\<rparr>]
   \<and> (ext_searchEnginesConfig e = JsonNull \<and> ext_provider e = None \<longrightarrow>
        enable Threw e
          = (None, \<lparr>ext_provider = Some (PrefixWebSearchProvider fallbackConfig),
                    ext_searchEnginesConfig = JsonArray (map Some fallbackConfig)\<rparr>))
   \<and> (ext_searchEnginesConfig e = JsonNull \<and> ext_provider e = Some p \<longrightarrow>
        enable Threw e
          = (None, \<lparr>ext_provider = Some p,
                    ext_searchEnginesConfig = JsonArray (map Some fallbackConfig)\<rparr>))
   \<and> (ext_searchEnginesConfig e0 = JsonNull \<and> ext_provider e0 = None \<longrightarrow>
        enable_p0 Threw e0
          = (None, \<lparr>ext_provider = Some (PrefixWebSearchProvider_p0 fallbackConfig),
                    ext_searchEnginesConfig = JsonArray (map Some fallbackConfig)\<rparr>))
   \<and> (ext_searchEnginesConfig e0 = JsonNull \<and> ext_provider e0 = Some p0 \<longrightarrow>
        enable_p0 Threw e0
          = (None, \<lparr>ext_provider = Some p0,
                    ext_searchEnginesConfig = JsonArray (map Some fallbackConfig)\<rparr>))
   \<and> dom (searchEnginesMap (PrefixWebSearchProvider fallbackConfig)) = {''gg'', ''_default_''}
   \<and> dom (searchEnginesMap_p0 (PrefixWebSearchProvider_p0 fallbackConfig))
       = {''gg'', ''_default_''}
   \<and> ext_searchEnginesConfig (loadSearchEnginesConfig (Parsed v) ext) = v
   \<and> (ext_searchEnginesConfig e = JsonNull \<and> ext_provider e = None
        \<and> (v = JsonNull \<or> v = JsonOther \<or> (\<exists>es. v = JsonArray es \<and> None \<in> set es)) \<longrightarrow>
        enable (Parsed v) e = (Some TypeError, \<lparr>ext_provider = None, ext_searchEnginesConfig = v\<rparr>))
   \<and> (ext_searchEnginesConfig e0 = JsonNull \<and> ext_provider e0 = None
        \<and> (v = JsonNull \<or> v = JsonOther \<or> (\<exists>es. v = JsonArray es \<and> None \<in> set es)) \<longrightarrow>
        enable_p0 (Parsed v) e0
          = (Some TypeError, \<lparr>ext_provider = None, ext_searchEnginesConfig = v\<rparr>))"
proof -
  have l: "\<And>x :: 'x extension. loadSearchEnginesConfig Threw x
             = x\<lparr>ext_searchEnginesConfig := JsonArray (map Some fallbackConfig)\<rparr>"
    by (simp add: loadSearchEnginesConfig_def)
  have lp: "\<And>x :: 'x extension. loadSearchEnginesConfig (Parsed v) x
             = x\<lparr>ext_searchEnginesConfig := v\<rparr>"
    by (simp add: loadSearchEnginesConfig_def)
  have n1: "newPrefixWebSearchProvider (JsonArray (map Some fallbackConfig))
              = Inr (PrefixWebSearchProvider fallbackConfig)"
    by (simp add: newPrefixWebSearchProvider_def those_map_Some)
  have n2: "newPrefixWebSearchProvider_p0 (JsonArray (map Some fallbackConfig))
              = Inr (PrefixWebSearchProvider_p0 fallbackConfig)"
    by (simp add: newPrefixWebSearchProvider_p0_def those_map_Some)
  have bad: "newPrefixWebSearchProvider v = Inl TypeError
             \<and> newPrefixWebSearchProvider_p0 v = Inl TypeError"
    if "v = JsonNull \<or> v = JsonOther \<or> (\<exists>es. v = JsonArray es \<and> None \<in> set es)"
    using that
    by (auto simp: newPrefixWebSearchProvider_def newPrefixWebSearchProvider_p0_def
          those_None_iff)
  have d1: "dom (searchEnginesMap (PrefixWebSearchProvider fallbackConfig)) = {''gg'', ''_default_''}"
    by (auto simp: PrefixWebSearchProvider_def fallbackConfig_def Let_def split: if_splits)
  have d2: "dom (searchEnginesMap_p0 (PrefixWebSearchProvider_p0 fallbackConfig))
              = {''gg'', ''_default_''}"
    by (auto simp: PrefixWebSearchProvider_p0_def fallbackConfig_def Let_def split: if_splits)
  have a: "ext_searchEnginesConfig (loadSearchEnginesConfig Threw ext)
             = JsonArray (map Some fallbackConfig)"
    by (simp add: l)
  have b: "ext_searchEnginesConfig e = JsonNull \<and> ext_provider e = None \<longrightarrow>
        enable Threw e
          = (None, \<lparr>ext_provider = Some (PrefixWebSearchProvider fallbackConfig),
                    ext_searchEnginesConfig = JsonArray (map Some fallbackConfig)\<rparr>)"
    by (cases e) (simp add: enable_def l n1)
  have c: "ext_searchEnginesConfig e = JsonNull \<and> ext_provider e = Some p \<longrightarrow>
        enable Threw e
          = (None, \<lparr>ext_provider = Some p,
                    ext_searchEnginesConfig = JsonArray (map Some fallbackConfig)\<rparr>)"
    by (cases e) (simp add: enable_def l)
  have b0: "ext_searchEnginesConfig e0 = JsonNull \<and> ext_provider e0 = None \<longrightarrow>
        enable_p0 Threw e0
          = (None, \<lparr>ext_provider = Some (PrefixWebSearchProvider_p0 fallbackConfig),
                    ext_searchEnginesConfig = JsonArray (map Some fallbackConfig)\<rparr>)"
    by (cases e0) (simp add: enable_p0_def l n2)
  have c0: "ext_searchEnginesConfig e0 = JsonNull \<and> ext_provider e0 = Some p0 \<longrightarrow>
        enable_p0 Threw e0
          = (None, \<lparr>ext_provider = Some p0,
                    ext_searchEnginesConfig = JsonArray (map Some fallbackConfig)\<rparr>)"
    by (cases e0) (simp add: enable_p0_def l)
  have f: "ext_searchEnginesConfig (loadSearchEnginesConfig (Parsed v) ext) = v"
    by (simp add: lp)
  have g: "ext_searchEnginesConfig e = JsonNull \<and> ext_provider e = None
        \<and> (v = JsonNull \<or> v = JsonOther \<or> (\<exists>es. v = JsonArray es \<and> None \<in> set es)) \<longrightarrow>
        enable (Parsed v) e = (Some TypeError, \<lparr>ext_provider = None, ext_searchEnginesConfig = v\<rparr>)"
    using bad by (cases e) (simp add: enable_def lp)
  have g0: "ext_searchEnginesConfig e0 = JsonNull \<and> ext_provider e0 = None
        \<and> (v = JsonNull \<or> v = JsonOther \<or> (\<exists>es. v = JsonArray es \<and> None \<in> set es)) \<longrightarrow>
        enable_p0 (Parsed v) e0
          = (Some TypeError, \<lparr>ext_provider = None, ext_searchEnginesConfig = v\<rparr>)"
    using bad by (cases e0) (simp add: enable_p0_def lp)
  have a': "ext_searchEnginesConfig (loadSearchEnginesConfig Threw ext)
     = JsonArray
         [Some \<lparr>prefix = ''gg'', url = ''https://www.google.com/search?q={query}'',
                 empty_query_url = None\<rparr>,
          Some \<lparr>prefix = ''_default_'', url = ''https://www.google.com/search?q={query}'',
                 empty_query_url = None\<rparr>]"
    using a by (simp add: fallbackConfig_def)
  from a' b c b0 c0 d1 d2 f g g0 show ?thesis by (intro conjI)
qed

text \<open>
  C9 for a file that cannot be read, and for a file with an empty object as its text, on
  the extension as constructed.
\<close>

theorem load_failure_gives_fallback_witness:
  "ext_searchEnginesConfig (PrefixWebSearchExtension :: provider extension) = JsonNull
   \<and> ext_provider (PrefixWebSearchExtension :: provider extension) = None
   \<and> enable Threw PrefixWebSearchExtension
       = (None, \<lparr>ext_provider = Some (PrefixWebSearchProvider fallbackConfig),
                 ext_searchEnginesConfig = JsonArray (map Some fallbackConfig)\<rparr>)
   \<and> searchEnginesMap (PrefixWebSearchProvider fallbackConfig) ''gg''
       = Some ''https://www.google.com/search?q={query}''
   \<and> searchEnginesMap (PrefixWebSearchProvider fallbackConfig) ''_default_''
       = Some ''https://www.google.com/search?q={query}''
   \<and> enable (Parsed JsonOther) PrefixWebSearchExtension
       = (Some TypeError, \<lparr>ext_provider = None, ext_searchEnginesConfig = JsonOther\<rparr>)"
proof -
  have n: "ext_searchEnginesConfig (PrefixWebSearchExtension :: provider extension) = JsonNull"
    "ext_provider (PrefixWebSearchExtension :: provider extension) = None"
    by (simp_all add: PrefixWebSearchExtension_def)
  have o: "JsonOther = JsonNull \<or> JsonOther = JsonOther
           \<or> (\<exists>es. JsonOther = JsonArray es \<and> None \<in> set es)"
    by simp
  have x: "enable Threw PrefixWebSearchExtension
       = (None, \<lparr>ext_provider = Some (PrefixWebSearchProvider fallbackConfig),
                 ext_searchEnginesConfig = JsonArray (map Some fallbackConfig)\<rparr>)"
    by (rule load_failure_gives_fallback [THEN conjunct2, THEN conjunct1, THEN mp])
       (rule conjI [OF n])
  have y: "enable (Parsed JsonOther) PrefixWebSearchExtension
       = (Some TypeError, \<lparr>ext_provider = None, ext_searchEnginesConfig = JsonOther\<rparr>)"
    by (rule load_failure_gives_fallback
               [THEN conjunct2, THEN conjunct2, THEN conjunct2, THEN conjunct2,
                THEN conjunct2, THEN conjunct2, THEN conjunct2, THEN conjunct2,
                THEN conjunct1, THEN mp])
       (rule conjI [OF n(1) conjI [OF n(2) o]])
  have g: "searchEnginesMap (PrefixWebSearchProvider fallbackConfig) ''gg''
       = Some ''https://www.google.com/search?q={query}''"
    "searchEnginesMap (PrefixWebSearchProvider fallbackConfig) ''_default_''
       = Some ''https://www.google.com/search?q={query}''"
    by (simp_all add: PrefixWebSearchProvider_def fallbackConfig_def)
  from n x g y show ?thesis by (intro conjI)
qed

text \<open>
  C9 as written fails on both files when "fails for any reason" covers a malformed file
  that parses: the text \<open>null\<close> parses to null, the fallback is not stored, and \<open>enable\<close>
  throws a TypeError.
\<close>

theorem load_failure_gives_fallback_counterexample:
  "ext_searchEnginesConfig
     (loadSearchEnginesConfig (Parsed JsonNull) (PrefixWebSearchExtension :: provider extension))
     \<noteq> JsonArray (map Some fallbackConfig)
   \<and> enable (Parsed JsonNull) PrefixWebSearchExtension
       = (Some TypeError, PrefixWebSearchExtension)
   \<and> enable_p0 (Parsed JsonNull) PrefixWebSearchExtension
       = (Some TypeError, PrefixWebSearchExtension)
   \<and> enable (Parsed (JsonArray [None])) PrefixWebSearchExtension
       = (Some TypeError, \<lparr>ext_provider = None, ext_searchEnginesConfig = JsonArray [None]\<rparr>)"
  by (simp add: loadSearchEnginesConfig_def enable_def enable_p0_def
        newPrefixWebSearchProvider_def newPrefixWebSearchProvider_p0_def
        PrefixWebSearchExtension_def)

text \<open>
  Claim C10. \<open>getSubsearchResultSet\<close> returns what \<open>getInitialResultSet\<close> returns on the
  new terms, and leaves the provider in the same state: the previous results have no
  effect. In both files.
\<close>

theorem subsearch_is_initial_search:
  "getSubsearchResultSet p results terms = getInitialResultSet p terms
   \<and> getSubsearchResultSet_p0 q results terms = getInitialResultSet_p0 q terms"
  by (simp add: getSubsearchResultSet_def getSubsearchResultSet_p0_def)

end
